theory Spec2Isabelle
  imports Main "HOL-Library.Sublist" "HOL-Library.Char_ord" "HOL-Library.List_Lexorder"
begin

section \<open>Meeting scheduler: data model\<close>

text \<open>
  The program is an Express application whose route handlers read and write one Firestore
  collection, \<^verbatim>\<open>meetings\<close>. Two variants of the application are in the repository: the
  full one (with participants) and \<^verbatim>\<open>index.js\<close> (without). Each handler runs behind the
  \<^verbatim>\<open>authenticateUser\<close> middleware, so it starts with a verified \<^verbatim>\<open>req.user.uid\<close>; the
  handlers below take that uid as an argument.

  A stored document and the JSON object of a meeting in a response have the same fields;
  they differ in the two timestamps, which are Firestore timestamps in the store
  (milliseconds, \<open>int\<close>) and ISO strings in a response. Firestore documents have no schema and
  the handlers guard the fields they do not trust (\<^verbatim>\<open>meetingData.participants || []\<close>,
  \<^verbatim>\<open>meetingDate !== undefined\<close>, \<^verbatim>\<open>meetingData.createdAt ? ... : null\<close>): those fields are
  optional, \<open>None\<close> standing for a field that is absent (\<^verbatim>\<open>undefined\<close>, rendered
  \<^verbatim>\<open>null\<close> for a timestamp).
\<close>

record 'ts meeting =
  title :: string
  date :: "string option"
  location :: string
  notes_txt :: string
  participants :: "string list option"
  createdBy :: string
  createdAt :: "'ts option"
  updatedAt :: "'ts option"

text \<open>
  \<^verbatim>\<open>req.body\<close> after \<^verbatim>\<open>express.json()\<close>, read at the types of the data model: text for
  \<^verbatim>\<open>title\<close>, \<^verbatim>\<open>date\<close>, \<^verbatim>\<open>location\<close>, \<^verbatim>\<open>notes\<close> and \<^verbatim>\<open>participantId\<close>, a sequence of
  user identifiers for \<^verbatim>\<open>participants\<close>. A key that the body does not have destructures
  to \<^verbatim>\<open>undefined\<close>, here \<open>None\<close>.
\<close>

record req_body =
  req_title :: "string option"
  req_date :: "string option"
  req_location :: "string option"
  req_notes :: "string option"
  req_participants :: "string list option"
  req_participantId :: "string option"

text \<open>
  What the handlers take from the JavaScript runtime and from Firestore:
  \<^item> \<open>Date_parse s\<close> is the time value of \<^verbatim>\<open>new Date(s)\<close> for a string, \<open>None\<close> when the
    result is an invalid date (\<^verbatim>\<open>isNaN\<close> holds of it);
  \<^item> \<open>toISOString t\<close> is \<^verbatim>\<open>toISOString()\<close> of the date with time value \<open>t\<close>;
  \<^item> \<open>Date_now\<close> is the time value of \<^verbatim>\<open>new Date()\<close>, the clock of the API process;
  \<^item> \<open>serverTimestamp\<close> is what the store writes for
    \<^verbatim>\<open>FieldValue.serverTimestamp()\<close>;
  \<^item> \<open>autoId\<close> is the identifier \<^verbatim>\<open>collection.add\<close> generates.
\<close>

record env =
  Date_parse :: "string \<Rightarrow> int option"
  toISOString :: "int \<Rightarrow> string"
  Date_now :: int
  serverTimestamp :: int
  autoId :: string

text \<open>The argument of \<^verbatim>\<open>meetingRef.update\<close>: the fields present are written, the others kept.\<close>

record updateData =
  upd_title :: "string option"
  upd_date :: "string option"
  upd_location :: "string option"
  upd_notes :: "string option"
  upd_participants :: "string list option"
  upd_updatedAt :: "int option"

type_synonym meeting_json = "string \<times> string meeting"

datatype payload =
    ErrorJson string
  | MeetingJson string meeting_json
  | MeetingRecord meeting_json
  | MeetingsJson "meeting_json list"
  | MessageJson string
  | ParticipantsJson string "string list"

type_synonym response = "nat \<times> payload"

type_synonym store = "(string \<times> int meeting) list"

section \<open>The store\<close>

text \<open>
  The collection is a list of (identifier, document) pairs. Reads always answer; a write
  fails only where Firestore refuses it by its own rules: \<^verbatim>\<open>add\<close> on an identifier that is
  taken, \<^verbatim>\<open>update\<close> of a document that is not there. The handlers turn a failed call into
  their 500 response.
\<close>

definition doc_get :: "store \<Rightarrow> string \<Rightarrow> int meeting option" where
  "doc_get st i = map_of st i"

definition collection_add :: "store \<Rightarrow> string \<Rightarrow> int meeting \<Rightarrow> store option" where
  "collection_add st i d = (if i \<in> set (map fst st) then None else Some (st @ [(i, d)]))"

definition merge_fields :: "updateData \<Rightarrow> int meeting \<Rightarrow> int meeting" where
  "merge_fields u d =
     d\<lparr> title := (case upd_title u of None \<Rightarrow> title d | Some v \<Rightarrow> v),
        date := (case upd_date u of None \<Rightarrow> date d | Some v \<Rightarrow> Some v),
        location := (case upd_location u of None \<Rightarrow> location d | Some v \<Rightarrow> v),
        notes_txt := (case upd_notes u of None \<Rightarrow> notes_txt d | Some v \<Rightarrow> v),
        participants := (case upd_participants u of None \<Rightarrow> participants d | Some v \<Rightarrow> Some v),
        updatedAt := (case upd_updatedAt u of None \<Rightarrow> updatedAt d | Some v \<Rightarrow> Some v) \<rparr>"

fun update_entries :: "string \<Rightarrow> updateData \<Rightarrow> store \<Rightarrow> store" where
  "update_entries i u [] = []"
| "update_entries i u ((k, d) # st) =
     (if k = i then (k, merge_fields u d) else (k, d)) # update_entries i u st"

definition doc_update :: "store \<Rightarrow> string \<Rightarrow> updateData \<Rightarrow> store option" where
  "doc_update st i u =
     (case map_of st i of None \<Rightarrow> None | Some d \<Rightarrow> Some (update_entries i u st))"

definition doc_delete :: "store \<Rightarrow> string \<Rightarrow> store" where
  "doc_delete st i = filter (\<lambda>(k, d). k \<noteq> i) st"

text \<open>
  The two queries, \<^verbatim>\<open>where('createdBy', '==', userId)\<close> and
  \<^verbatim>\<open>where('participants', 'array-contains', userId)\<close>. A query with no
  \<^verbatim>\<open>orderBy\<close> answers its documents in ascending order of document identifier, whatever
  the order in which they were written; identifiers compare as strings, byte by byte. A
  document with no \<^verbatim>\<open>participants\<close> does not match \<^verbatim>\<open>array-contains\<close>.
\<close>

definition where_createdBy :: "store \<Rightarrow> string \<Rightarrow> store" where
  "where_createdBy st userId = sort_key fst (filter (\<lambda>(k, d). createdBy d = userId) st)"

definition where_participants_array_contains :: "store \<Rightarrow> string \<Rightarrow> store" where
  "where_participants_array_contains st userId =
     sort_key fst
       (filter (\<lambda>(k, d). case participants d of None \<Rightarrow> False | Some ps \<Rightarrow> userId \<in> set ps) st)"

section \<open>The handlers\<close>

text \<open>JavaScript truthiness of a text field: \<^verbatim>\<open>undefined\<close> and \<^verbatim>\<open>''\<close> are falsy.\<close>

definition truthy :: "string option \<Rightarrow> bool" where
  "truthy v = (case v of None \<Rightarrow> False | Some s \<Rightarrow> s \<noteq> [])"

text \<open>\<^verbatim>\<open>v || ''\<close>\<close>

definition or_empty :: "string option \<Rightarrow> string" where
  "or_empty v = (case v of None \<Rightarrow> [] | Some s \<Rightarrow> if s \<noteq> [] then s else [])"

text \<open>\<^verbatim>\<open>v || []\<close> (an array, also the empty one, is truthy)\<close>

definition or_nil :: "string list option \<Rightarrow> string list" where
  "or_nil v = (case v of None \<Rightarrow> [] | Some ps \<Rightarrow> ps)"

text \<open>
  The object a response carries for a stored document:
  \<^verbatim>\<open>{ id, ...meetingData, createdAt: meetingData.createdAt ? ....toISOString() : null, ... }\<close>
\<close>

definition shape :: "env \<Rightarrow> string \<Rightarrow> int meeting \<Rightarrow> meeting_json" where
  "shape env i d =
     (i, \<lparr> title = title d, date = date d, location = location d, notes_txt = notes_txt d,
           participants = participants d, createdBy = createdBy d,
           createdAt = (case createdAt d of None \<Rightarrow> None | Some t \<Rightarrow> Some (toISOString env t)),
           updatedAt = (case updatedAt d of None \<Rightarrow> None | Some t \<Rightarrow> Some (toISOString env t)) \<rparr>)"

text \<open>\<^verbatim>\<open>date ? new Date(date) : new Date()\<close>, \<open>None\<close> for an invalid date.\<close>

definition meetingDate_of :: "env \<Rightarrow> string option \<Rightarrow> int option" where
  "meetingDate_of env v =
     (case v of None \<Rightarrow> Some (Date_now env)
      | Some s \<Rightarrow> if s \<noteq> [] then Date_parse env s else Some (Date_now env))"

text \<open>\<^verbatim>\<open>POST /api/meetings\<close>, full variant.\<close>

definition post_meetings :: "env \<Rightarrow> store \<Rightarrow> string \<Rightarrow> req_body \<Rightarrow> response \<times> store" where
  "post_meetings env st uid body =
     (case req_title body of
        None \<Rightarrow> ((400, ErrorJson ''Meeting title is required''), st)
      | Some t \<Rightarrow>
          if t = [] then ((400, ErrorJson ''Meeting title is required''), st)
          else (case meetingDate_of env (req_date body) of
                  None \<Rightarrow> ((400, ErrorJson ''Invalid date format''), st)
                | Some meetingDate \<Rightarrow>
                    let meetingData =
                          \<lparr> title = t, date = Some (toISOString env meetingDate),
                            location = or_empty (req_location body),
                            notes_txt = or_empty (req_notes body),
                            participants = Some (or_nil (req_participants body)),
                            createdBy = uid,
                            createdAt = Some (serverTimestamp env),
                            updatedAt = Some (serverTimestamp env) \<rparr>
                    in (case collection_add st (autoId env) meetingData of
                          None \<Rightarrow> ((500, ErrorJson ''Failed to create meeting''), st)
                        | Some st' \<Rightarrow>
                            ((201, MeetingJson ''Meeting created successfully''
                                    (autoId env,
                                     \<lparr> title = t, date = Some (toISOString env meetingDate),
                                       location = or_empty (req_location body),
                                       notes_txt = or_empty (req_notes body),
                                       participants = Some (or_nil (req_participants body)),
                                       createdBy = uid,
                                       createdAt = Some (toISOString env (Date_now env)),
                                       updatedAt = Some (toISOString env (Date_now env)) \<rparr>)),
                             st'))))"

text \<open>\<^verbatim>\<open>POST /api/meetings\<close> of \<^verbatim>\<open>index.js\<close>: the same, with \<^verbatim>\<open>participants: []\<close>.\<close>

definition index_post_meetings :: "env \<Rightarrow> store \<Rightarrow> string \<Rightarrow> req_body \<Rightarrow> response \<times> store" where
  "index_post_meetings env st uid body =
     (case req_title body of
        None \<Rightarrow> ((400, ErrorJson ''Meeting title is required''), st)
      | Some t \<Rightarrow>
          if t = [] then ((400, ErrorJson ''Meeting title is required''), st)
          else (case meetingDate_of env (req_date body) of
                  None \<Rightarrow> ((400, ErrorJson ''Invalid date format''), st)
                | Some meetingDate \<Rightarrow>
                    let meetingData =
                          \<lparr> title = t, date = Some (toISOString env meetingDate),
                            location = or_empty (req_location body),
                            notes_txt = or_empty (req_notes body),
                            participants = Some [],
                            createdBy = uid,
                            createdAt = Some (serverTimestamp env),
                            updatedAt = Some (serverTimestamp env) \<rparr>
                    in (case collection_add st (autoId env) meetingData of
                          None \<Rightarrow> ((500, ErrorJson ''Failed to create meeting''), st)
                        | Some st' \<Rightarrow>
                            ((201, MeetingJson ''Meeting created successfully''
                                    (autoId env,
                                     \<lparr> title = t, date = Some (toISOString env meetingDate),
                                       location = or_empty (req_location body),
                                       notes_txt = or_empty (req_notes body),
                                       participants = Some [],
                                       createdBy = uid,
                                       createdAt = Some (toISOString env (Date_now env)),
                                       updatedAt = Some (toISOString env (Date_now env)) \<rparr>)),
                             st'))))"

text \<open>
  \<^verbatim>\<open>querySnapshot.forEach((doc) => { meetings.push({ id: doc.id, ... }) })\<close>: the loop of
  the two list handlers, with the array it fills.
\<close>

fun forEach_push :: "env \<Rightarrow> store \<Rightarrow> meeting_json list \<Rightarrow> meeting_json list" where
  "forEach_push env [] meetings = meetings"
| "forEach_push env ((k, d) # docs) meetings = forEach_push env docs (meetings @ [shape env k d])"

text \<open>\<^verbatim>\<open>GET /api/meetings\<close>, full variant (no \<^verbatim>\<open>orderBy\<close>).\<close>

definition get_meetings :: "env \<Rightarrow> store \<Rightarrow> string \<Rightarrow> response" where
  "get_meetings env st userId =
     (200, MeetingsJson (forEach_push env (where_createdBy st userId) []))"

text \<open>\<^verbatim>\<open>GET /api/meetings/participating\<close>\<close>

definition get_meetings_participating :: "env \<Rightarrow> store \<Rightarrow> string \<Rightarrow> response" where
  "get_meetings_participating env st userId =
     (200, MeetingsJson (forEach_push env (where_participants_array_contains st userId) []))"

text \<open>
  \<^verbatim>\<open>GET /api/meetings/:id\<close>. \<^verbatim>\<open>meetingData.participants?.includes(userId)\<close> is
  \<^verbatim>\<open>undefined\<close>, so falsy, when the document has no \<^verbatim>\<open>participants\<close>.
\<close>

definition get_meeting :: "env \<Rightarrow> store \<Rightarrow> string \<Rightarrow> string \<Rightarrow> response" where
  "get_meeting env st userId meetingId =
     (case doc_get st meetingId of
        None \<Rightarrow> (404, ErrorJson ''Meeting not found'')
      | Some meetingData \<Rightarrow>
          if createdBy meetingData \<noteq> userId
             \<and> \<not> (case participants meetingData of None \<Rightarrow> False | Some ps \<Rightarrow> userId \<in> set ps)
          then (403, ErrorJson ''Access denied'')
          else (200, MeetingRecord (shape env meetingId meetingData)))"

text \<open>
  \<^verbatim>\<open>PUT /api/meetings/:id\<close>. The date that will be written: the stored one, or the ISO
  string of a truthy \<^verbatim>\<open>date\<close> of the body; the outer \<open>None\<close> is the invalid date.
\<close>

definition put_meetingDate :: "env \<Rightarrow> string option \<Rightarrow> string option \<Rightarrow> string option option" where
  "put_meetingDate env v stored =
     (case v of None \<Rightarrow> Some stored
      | Some s \<Rightarrow>
          if s \<noteq> [] then
            (case Date_parse env s of None \<Rightarrow> None | Some t \<Rightarrow> Some (Some (toISOString env t)))
          else Some stored)"

definition put_meeting :: "env \<Rightarrow> store \<Rightarrow> string \<Rightarrow> string \<Rightarrow> req_body \<Rightarrow> response \<times> store" where
  "put_meeting env st userId meetingId body =
     (case doc_get st meetingId of
        None \<Rightarrow> ((404, ErrorJson ''Meeting not found''), st)
      | Some meetingData \<Rightarrow>
          if createdBy meetingData \<noteq> userId
          then ((403, ErrorJson ''Only the meeting creator can update it''), st)
          else (case put_meetingDate env (req_date body) (date meetingData) of
                  None \<Rightarrow> ((400, ErrorJson ''Invalid date format''), st)
                | Some meetingDate \<Rightarrow>
                    let updateData =
                          \<lparr> upd_title = req_title body, upd_date = meetingDate,
                            upd_location = req_location body, upd_notes = req_notes body,
                            upd_participants = req_participants body,
                            upd_updatedAt = Some (serverTimestamp env) \<rparr>
                    in (case doc_update st meetingId updateData of
                          None \<Rightarrow> ((500, ErrorJson ''Failed to update meeting''), st)
                        | Some st' \<Rightarrow>
                            (case doc_get st' meetingId of
                               None \<Rightarrow> ((500, ErrorJson ''Failed to update meeting''), st')
                             | Some updatedMeetingData \<Rightarrow>
                                 ((200, MeetingJson ''Meeting updated successfully''
                                         (shape env meetingId updatedMeetingData)),
                                  st')))))"

text \<open>\<^verbatim>\<open>DELETE /api/meetings/:id\<close>\<close>

definition delete_meeting :: "store \<Rightarrow> string \<Rightarrow> string \<Rightarrow> response \<times> store" where
  "delete_meeting st userId meetingId =
     (case doc_get st meetingId of
        None \<Rightarrow> ((404, ErrorJson ''Meeting not found''), st)
      | Some meetingData \<Rightarrow>
          if createdBy meetingData \<noteq> userId
          then ((403, ErrorJson ''Only the meeting creator can delete it''), st)
          else ((200, MessageJson ''Meeting deleted successfully''), doc_delete st meetingId))"

text \<open>The argument of the two participant handlers' \<^verbatim>\<open>meetingRef.update\<close>.\<close>

definition participants_payload :: "env \<Rightarrow> string list \<Rightarrow> updateData" where
  "participants_payload env ps =
     \<lparr> upd_title = None, upd_date = None, upd_location = None, upd_notes = None,
       upd_participants = Some ps, upd_updatedAt = Some (serverTimestamp env) \<rparr>"

text \<open>\<^verbatim>\<open>POST /api/meetings/:id/participants\<close>\<close>

definition post_participants :: "env \<Rightarrow> store \<Rightarrow> string \<Rightarrow> string \<Rightarrow> req_body \<Rightarrow> response \<times> store" where
  "post_participants env st userId meetingId body =
     (case req_participantId body of
        None \<Rightarrow> ((400, ErrorJson ''Participant ID is required''), st)
      | Some participantId \<Rightarrow>
          if participantId = [] then ((400, ErrorJson ''Participant ID is required''), st)
          else (case doc_get st meetingId of
                  None \<Rightarrow> ((404, ErrorJson ''Meeting not found''), st)
                | Some meetingData \<Rightarrow>
                    if createdBy meetingData \<noteq> userId
                    then ((403, ErrorJson ''Only the meeting creator can add participants''), st)
                    else if participantId \<in> set (or_nil (participants meetingData))
                    then ((400, ErrorJson ''Participant already added to meeting''), st)
                    else (case doc_update st meetingId
                                 (participants_payload env
                                    (or_nil (participants meetingData) @ [participantId])) of
                            None \<Rightarrow> ((500, ErrorJson ''Failed to add participant''), st)
                          | Some st' \<Rightarrow>
                              ((200, ParticipantsJson ''Participant added successfully''
                                      (or_nil (participants meetingData) @ [participantId])),
                               st'))))"

text \<open>\<^verbatim>\<open>DELETE /api/meetings/:id/participants/:participantId\<close>\<close>

definition delete_participant :: "env \<Rightarrow> store \<Rightarrow> string \<Rightarrow> string \<Rightarrow> string \<Rightarrow> response \<times> store" where
  "delete_participant env st userId meetingId participantId =
     (case doc_get st meetingId of
        None \<Rightarrow> ((404, ErrorJson ''Meeting not found''), st)
      | Some meetingData \<Rightarrow>
          if createdBy meetingData \<noteq> userId \<and> userId \<noteq> participantId
          then ((403, ErrorJson ''Unauthorized to remove this participant''), st)
          else if participantId \<notin> set (or_nil (participants meetingData))
          then ((400, ErrorJson ''Participant not found in meeting''), st)
          else (case doc_update st meetingId
                       (participants_payload env
                          (filter (\<lambda>i. i \<noteq> participantId) (or_nil (participants meetingData)))) of
                  None \<Rightarrow> ((500, ErrorJson ''Failed to remove participant''), st)
                | Some st' \<Rightarrow>
                    ((200, ParticipantsJson ''Participant removed successfully''
                            (filter (\<lambda>i. i \<noteq> participantId) (or_nil (participants meetingData)))),
                     st')))"

section \<open>Sample data\<close>

text \<open>
  A runtime and a store for the concrete instances below. \<open>sample_parse\<close> and
  \<open>sample_iso\<close> agree with JavaScript on the strings and time values listed.
\<close>

definition sample_parse :: "string \<Rightarrow> int option" where
  "sample_parse s =
     (if s = ''2024-01-01T00:00:00.000Z'' then Some 1704067200000
      else if s = ''1970-01-01'' then Some 0
      else None)"

definition sample_iso :: "int \<Rightarrow> string" where
  "sample_iso t =
     (if t = 1704067200000 then ''2024-01-01T00:00:00.000Z''
      else if t = 0 then ''1970-01-01T00:00:00.000Z''
      else if t = 1000 then ''1970-01-01T00:00:01.000Z''
      else if t = 2000 then ''1970-01-01T00:00:02.000Z''
      else ''1970-01-01T00:00:03.000Z'')"

definition sample_env :: env where
  "sample_env = \<lparr> Date_parse = sample_parse, toISOString = sample_iso,
                   Date_now = 2000, serverTimestamp = 3000, autoId = ''m9'' \<rparr>"

definition sample_meeting :: "int meeting" where
  "sample_meeting =
     \<lparr> title = ''Standup'', date = Some ''1970-01-01T00:00:00.000Z'', location = ''Room 1'',
       notes_txt = ''weekly'', participants = Some [''bob''], createdBy = ''alice'',
       createdAt = Some 1000, updatedAt = Some 1000 \<rparr>"

definition team_meeting :: "int meeting" where
  "team_meeting =
     \<lparr> title = ''Planning'', date = Some ''2024-01-01T00:00:00.000Z'', location = [],
       notes_txt = [], participants = Some [''alice'', ''carol''], createdBy = ''alice'',
       createdAt = Some 1000, updatedAt = Some 2000 \<rparr>"

definition review_meeting :: "int meeting" where
  "review_meeting =
     \<lparr> title = ''Review'', date = Some ''2024-01-01T00:00:00.000Z'', location = ''Room 2'',
       notes_txt = [], participants = Some [''bob'', ''dave'', ''bob'', ''alice''],
       createdBy = ''carol'', createdAt = Some 0, updatedAt = Some 0 \<rparr>"

definition sample_store :: store where
  "sample_store = [(''m1'', sample_meeting), (''m2'', team_meeting), (''m3'', review_meeting)]"

definition empty_body :: req_body where
  "empty_body = \<lparr> req_title = None, req_date = None, req_location = None, req_notes = None,
                   req_participants = None, req_participantId = None \<rparr>"

text \<open>The status code of a handler's response, and the store the handler leaves.\<close>

definition status_of :: "response \<times> store \<Rightarrow> nat" where
  "status_of r = fst (fst r)"

definition store_of :: "response \<times> store \<Rightarrow> store" where
  "store_of r = snd r"

text \<open>The array of a list response.\<close>

definition listed :: "response \<Rightarrow> meeting_json list" where
  "listed r = (case snd r of MeetingsJson ms \<Rightarrow> ms | _ \<Rightarrow> [])"

section \<open>Facts about the store and the helpers\<close>

lemma map_of_update_entries_same:
  "map_of st i = Some d \<Longrightarrow> map_of (update_entries i u st) i = Some (merge_fields u d)"
  by (induction st) (auto split: if_splits)

lemma map_of_update_entries_other:
  "j \<noteq> i \<Longrightarrow> map_of (update_entries i u st) j = map_of st j"
  by (induction st) auto

lemma doc_update_get:
  assumes "doc_get st i = Some d"
  shows "\<exists>st'. doc_update st i u = Some st' \<and> doc_get st' i = Some (merge_fields u d)
           \<and> (\<forall>j. j \<noteq> i \<longrightarrow> doc_get st' j = doc_get st j)"
  using assms
  by (simp add: doc_update_def doc_get_def map_of_update_entries_same map_of_update_entries_other)

lemma forEach_push_eq: "forEach_push env docs acc = acc @ map (\<lambda>(k, d). shape env k d) docs"
  by (induction docs arbitrary: acc) auto

lemma count_list_filter_neq:
  "x \<noteq> p \<Longrightarrow> count_list (filter (\<lambda>i. i \<noteq> p) xs) x = count_list xs x"
  by (induction xs) auto

lemma collection_add_fresh:
  "i \<notin> set (map fst st) \<Longrightarrow> collection_add st i d = Some (st @ [(i, d)])"
  by (simp add: collection_add_def)

lemma meetingDate_of_invalid:
  "v = Some s \<Longrightarrow> s \<noteq> [] \<Longrightarrow> Date_parse env s = None \<Longrightarrow> meetingDate_of env v = None"
  by (simp add: meetingDate_of_def)

lemma meetingDate_of_default:
  "v = None \<or> v = Some [] \<Longrightarrow> meetingDate_of env v = Some (Date_now env)"
  by (auto simp: meetingDate_of_def)

section \<open>Create\<close>

text \<open>
  C1, as the code has it. The handlers test \<^verbatim>\<open>date ? new Date(date) : new Date()\<close>, so
  only a truthy \<^verbatim>\<open>date\<close> is parsed. A create request whose \<^verbatim>\<open>date\<close> is a non-empty
  string that does not parse is answered 400 and the store is left as it was. When
  \<^verbatim>\<open>date\<close> is missing or the empty string, the title is non-empty and the generated
  identifier is free, the request is answered 201 and the one record added has the ISO string of
  the current time of the server as its \<^verbatim>\<open>date\<close>. Both variants of the application.
\<close>

theorem create_date_validation:
  "(req_date body = Some s \<and> s \<noteq> [] \<and> Date_parse env s = None \<longrightarrow>
      status_of (post_meetings env st uid body) = 400
      \<and> store_of (post_meetings env st uid body) = st
      \<and> status_of (index_post_meetings env st uid body) = 400
      \<and> store_of (index_post_meetings env st uid body) = st)
   \<and> (req_title body = Some t \<and> t \<noteq> [] \<and> (req_date body = None \<or> req_date body = Some [])
        \<and> autoId env \<notin> set (map fst st) \<longrightarrow>
      (\<exists>d. status_of (post_meetings env st uid body) = 201
          \<and> store_of (post_meetings env st uid body) = st @ [(autoId env, d)]
          \<and> date d = Some (toISOString env (Date_now env)))
      \<and> (\<exists>d. status_of (index_post_meetings env st uid body) = 201
          \<and> store_of (index_post_meetings env st uid body) = st @ [(autoId env, d)]
          \<and> date d = Some (toISOString env (Date_now env))))"
proof (intro conjI impI)
  assume a: "req_date body = Some s \<and> s \<noteq> [] \<and> Date_parse env s = None"
  then have inv: "meetingDate_of env (req_date body) = None"
    by (simp add: meetingDate_of_invalid)
  show "status_of (post_meetings env st uid body) = 400"
    using inv by (simp add: post_meetings_def status_of_def split: option.splits)
  show "store_of (post_meetings env st uid body) = st"
    using inv by (simp add: post_meetings_def store_of_def split: option.splits)
  show "status_of (index_post_meetings env st uid body) = 400"
    using inv by (simp add: index_post_meetings_def status_of_def split: option.splits)
  show "store_of (index_post_meetings env st uid body) = st"
    using inv by (simp add: index_post_meetings_def store_of_def split: option.splits)
next
  assume b: "req_title body = Some t \<and> t \<noteq> [] \<and> (req_date body = None \<or> req_date body = Some [])
        \<and> autoId env \<notin> set (map fst st)"
  then have now: "meetingDate_of env (req_date body) = Some (Date_now env)"
    by (simp add: meetingDate_of_default)
  show "\<exists>d. status_of (post_meetings env st uid body) = 201
          \<and> store_of (post_meetings env st uid body) = st @ [(autoId env, d)]
          \<and> date d = Some (toISOString env (Date_now env))"
    using b now by (simp add: post_meetings_def status_of_def store_of_def collection_add_fresh)
  show "\<exists>d. status_of (index_post_meetings env st uid body) = 201
          \<and> store_of (index_post_meetings env st uid body) = st @ [(autoId env, d)]
          \<and> date d = Some (toISOString env (Date_now env))"
    using b now
    by (simp add: index_post_meetings_def status_of_def store_of_def collection_add_fresh)
qed

theorem create_date_validation_witness:
  "(req_date (empty_body\<lparr>req_title := Some ''Retro'', req_date := Some ''next week''\<rparr>)
      = Some ''next week''
    \<and> ''next week'' \<noteq> [] \<and> Date_parse sample_env ''next week'' = None)
   \<and> status_of (post_meetings sample_env sample_store ''alice''
        (empty_body\<lparr>req_title := Some ''Retro'', req_date := Some ''next week''\<rparr>)) = 400
   \<and> store_of (post_meetings sample_env sample_store ''alice''
        (empty_body\<lparr>req_title := Some ''Retro'', req_date := Some ''next week''\<rparr>)) = sample_store
   \<and> (req_title (empty_body\<lparr>req_title := Some ''Retro''\<rparr>) = Some ''Retro''
      \<and> ''Retro'' \<noteq> [] \<and> req_date (empty_body\<lparr>req_title := Some ''Retro''\<rparr>) = None
      \<and> autoId sample_env \<notin> set (map fst sample_store))
   \<and> (\<exists>d. store_of (post_meetings sample_env sample_store ''alice''
              (empty_body\<lparr>req_title := Some ''Retro''\<rparr>)) = sample_store @ [(''m9'', d)]
          \<and> date d = Some ''1970-01-01T00:00:02.000Z'')"
proof -
  let ?b1 = "empty_body\<lparr>req_title := Some ''Retro'', req_date := Some ''next week''\<rparr>"
  let ?b2 = "empty_body\<lparr>req_title := Some ''Retro''\<rparr>"
  have h1: "req_date ?b1 = Some ''next week''
            \<and> ''next week'' \<noteq> [] \<and> Date_parse sample_env ''next week'' = None"
    by (simp add: sample_env_def sample_parse_def)
  have h2: "req_title ?b2 = Some ''Retro'' \<and> ''Retro'' \<noteq> []
      \<and> (req_date ?b2 = None \<or> req_date ?b2 = Some [])
      \<and> autoId sample_env \<notin> set (map fst sample_store)"
    by (simp add: empty_body_def sample_env_def sample_store_def)
  have e: "toISOString sample_env (Date_now sample_env) = ''1970-01-01T00:00:02.000Z''"
    "autoId sample_env = ''m9''"
    by (simp_all add: sample_env_def sample_iso_def)
  from create_date_validation
         [of ?b1 "''next week''" sample_env sample_store "''alice''" "''Retro''"] h1
  have c1: "status_of (post_meetings sample_env sample_store ''alice'' ?b1) = 400
            \<and> store_of (post_meetings sample_env sample_store ''alice'' ?b1) = sample_store"
    by blast
  from create_date_validation
         [of ?b2 "''next week''" sample_env sample_store "''alice''" "''Retro''"] h2
  have c2: "\<exists>d. status_of (post_meetings sample_env sample_store ''alice'' ?b2) = 201
          \<and> store_of (post_meetings sample_env sample_store ''alice'' ?b2)
              = sample_store @ [(autoId sample_env, d)]
          \<and> date d = Some (toISOString sample_env (Date_now sample_env))"
    by blast
  have h2': "req_date ?b2 = None" by (simp add: empty_body_def)
  from h1 h2 h2' c1 c2 show ?thesis unfolding e by blast
qed

text \<open>
  The claim C1 as written fails for the empty string: \<^verbatim>\<open>date: ""\<close> is supplied, does not
  parse, and the request is answered 201 with a record stored.
\<close>

theorem create_empty_date_counterexample:
  "req_date (empty_body\<lparr>req_title := Some ''Retro'', req_date := Some ''''\<rparr>) = Some ''''
   \<and> Date_parse sample_env '''' = None
   \<and> status_of (post_meetings sample_env sample_store ''alice''
        (empty_body\<lparr>req_title := Some ''Retro'', req_date := Some ''''\<rparr>)) = 201
   \<and> length (store_of (post_meetings sample_env sample_store ''alice''
        (empty_body\<lparr>req_title := Some ''Retro'', req_date := Some ''''\<rparr>)))
       = Suc (length sample_store)
   \<and> status_of (index_post_meetings sample_env sample_store ''alice''
        (empty_body\<lparr>req_title := Some ''Retro'', req_date := Some ''''\<rparr>)) = 201
   \<and> length (store_of (index_post_meetings sample_env sample_store ''alice''
        (empty_body\<lparr>req_title := Some ''Retro'', req_date := Some ''''\<rparr>)))
       = Suc (length sample_store)"
  by (simp add: post_meetings_def index_post_meetings_def meetingDate_of_def collection_add_def
      status_of_def store_of_def sample_env_def sample_parse_def sample_store_def empty_body_def)


text \<open>
  C2. A create request whose \<^verbatim>\<open>title\<close> is missing or the empty string is answered 400
  (\<^verbatim>\<open>Meeting title is required\<close>) and the store is left as it was, in both variants of the
  application.
\<close>

theorem create_title_required:
  assumes "req_title body = None \<or> req_title body = Some ''''"
  shows "post_meetings env st uid body = ((400, ErrorJson ''Meeting title is required''), st)
       \<and> index_post_meetings env st uid body
           = ((400, ErrorJson ''Meeting title is required''), st)"
  using assms by (auto simp: post_meetings_def index_post_meetings_def)

theorem create_title_required_witness:
  "post_meetings sample_env sample_store ''alice'' (empty_body\<lparr>req_title := Some ''''\<rparr>)
     = ((400, ErrorJson ''Meeting title is required''), sample_store)
   \<and> index_post_meetings sample_env sample_store ''alice'' (empty_body\<lparr>req_title := Some ''''\<rparr>)
     = ((400, ErrorJson ''Meeting title is required''), sample_store)"
proof -
  have h: "req_title (empty_body\<lparr>req_title := Some ''''\<rparr>) = None
         \<or> req_title (empty_body\<lparr>req_title := Some ''''\<rparr>) = Some ''''"
    by simp
  show ?thesis
    using create_title_required [OF h, of sample_env sample_store "''alice''"] by simp
qed

section \<open>Callers other than the creator\<close>

text \<open>
  C3, as the code has it. On an existing meeting, for a caller who is not its creator, Update
  and Delete answer 403, and Add-Participant answers 403 when the body has a non-empty
  \<^verbatim>\<open>participantId\<close>; without one Add-Participant answers 400, because it tests
  \<^verbatim>\<open>!participantId\<close> before it reads the meeting. In every case the store is left as it
  was.
\<close>

theorem non_creator_forbidden:
  assumes "doc_get st mid = Some m" and "createdBy m \<noteq> uid"
  shows "put_meeting env st uid mid body
           = ((403, ErrorJson ''Only the meeting creator can update it''), st)
       \<and> delete_meeting st uid mid
           = ((403, ErrorJson ''Only the meeting creator can delete it''), st)
       \<and> (truthy (req_participantId body) \<longrightarrow>
            post_participants env st uid mid body
              = ((403, ErrorJson ''Only the meeting creator can add participants''), st))
       \<and> (\<not> truthy (req_participantId body) \<longrightarrow>
            post_participants env st uid mid body
              = ((400, ErrorJson ''Participant ID is required''), st))"
proof (intro conjI impI)
  show "put_meeting env st uid mid body
           = ((403, ErrorJson ''Only the meeting creator can update it''), st)"
    using assms by (simp add: put_meeting_def)
  show "delete_meeting st uid mid
           = ((403, ErrorJson ''Only the meeting creator can delete it''), st)"
    using assms by (simp add: delete_meeting_def)
next
  assume "truthy (req_participantId body)"
  then obtain p where "req_participantId body = Some p" "p \<noteq> []"
    by (auto simp: truthy_def split: option.splits)
  then show "post_participants env st uid mid body
              = ((403, ErrorJson ''Only the meeting creator can add participants''), st)"
    using assms by (simp add: post_participants_def)
next
  assume "\<not> truthy (req_participantId body)"
  then show "post_participants env st uid mid body
              = ((400, ErrorJson ''Participant ID is required''), st)"
    by (auto simp: truthy_def post_participants_def split: option.splits)
qed

theorem non_creator_forbidden_witness:
  "doc_get sample_store ''m1'' = Some sample_meeting \<and> createdBy sample_meeting \<noteq> ''bob''
   \<and> truthy (req_participantId (empty_body\<lparr>req_participantId := Some ''dave''\<rparr>))
   \<and> \<not> truthy (req_participantId empty_body)
   \<and> put_meeting sample_env sample_store ''bob'' ''m1'' empty_body
       = ((403, ErrorJson ''Only the meeting creator can update it''), sample_store)
   \<and> delete_meeting sample_store ''bob'' ''m1''
       = ((403, ErrorJson ''Only the meeting creator can delete it''), sample_store)
   \<and> post_participants sample_env sample_store ''bob'' ''m1''
        (empty_body\<lparr>req_participantId := Some ''dave''\<rparr>)
       = ((403, ErrorJson ''Only the meeting creator can add participants''), sample_store)
   \<and> post_participants sample_env sample_store ''bob'' ''m1'' empty_body
       = ((400, ErrorJson ''Participant ID is required''), sample_store)"
proof -
  have h1: "doc_get sample_store ''m1'' = Some sample_meeting"
    by (simp add: doc_get_def sample_store_def)
  have h2: "createdBy sample_meeting \<noteq> ''bob''"
    by (simp add: sample_meeting_def)
  have h3: "truthy (req_participantId (empty_body\<lparr>req_participantId := Some ''dave''\<rparr>))"
    by (simp add: truthy_def)
  have h4: "\<not> truthy (req_participantId empty_body)"
    by (simp add: truthy_def empty_body_def)
  from non_creator_forbidden [OF h1 h2, of sample_env "empty_body\<lparr>req_participantId := Some ''dave''\<rparr>"]
       non_creator_forbidden [OF h1 h2, of sample_env empty_body] h1 h2 h3 h4
  show ?thesis by blast
qed

text \<open>
  The claim C3 as written fails for Add-Participant: a caller who is not the creator and sends
  no \<^verbatim>\<open>participantId\<close> is answered 400, not 403.
\<close>

theorem add_participant_order_counterexample:
  "doc_get sample_store ''m1'' = Some sample_meeting \<and> createdBy sample_meeting = ''alice''
   \<and> post_participants sample_env sample_store ''bob'' ''m1'' empty_body
       = ((400, ErrorJson ''Participant ID is required''), sample_store)"
  by (simp add: doc_get_def sample_store_def sample_meeting_def post_participants_def
      empty_body_def)

section \<open>Update\<close>

lemma put_meeting_creator:
  assumes "doc_get st mid = Some m" and "createdBy m = uid"
    and "put_meetingDate env (req_date body) (date m) = Some md"
  shows "\<exists>st'. put_meeting env st uid mid body
           = ((200, MeetingJson ''Meeting updated successfully''
                 (shape env mid
                    (merge_fields
                       \<lparr> upd_title = req_title body, upd_date = md,
                         upd_location = req_location body, upd_notes = req_notes body,
                         upd_participants = req_participants body,
                         upd_updatedAt = Some (serverTimestamp env) \<rparr> m))), st')
         \<and> doc_get st' mid
             = Some (merge_fields
                       \<lparr> upd_title = req_title body, upd_date = md,
                         upd_location = req_location body, upd_notes = req_notes body,
                         upd_participants = req_participants body,
                         upd_updatedAt = Some (serverTimestamp env) \<rparr> m)
         \<and> (\<forall>j. j \<noteq> mid \<longrightarrow> doc_get st' j = doc_get st j)"
proof -
  let ?u = "\<lparr> upd_title = req_title body, upd_date = md,
              upd_location = req_location body, upd_notes = req_notes body,
              upd_participants = req_participants body,
              upd_updatedAt = Some (serverTimestamp env) \<rparr>"
  from doc_update_get [OF assms(1), of ?u]
  obtain st' where u: "doc_update st mid ?u = Some st'"
    and g: "doc_get st' mid = Some (merge_fields ?u m)"
    and o: "\<forall>j. j \<noteq> mid \<longrightarrow> doc_get st' j = doc_get st j"
    by blast
  have "put_meeting env st uid mid body
          = ((200, MeetingJson ''Meeting updated successfully''
                (shape env mid (merge_fields ?u m))), st')"
    using assms u g by (simp add: put_meeting_def)
  with g o show ?thesis by blast
qed

text \<open>
  C4, as the code has it. For an Update request by the creator of an existing meeting whose
  \<^verbatim>\<open>date\<close>, when it is a non-empty string, parses: the request is answered 200; each of
  \<^verbatim>\<open>title\<close>, \<^verbatim>\<open>location\<close>, \<^verbatim>\<open>notes\<close>, \<^verbatim>\<open>participants\<close> that the body has is
  written as given and each one it does not have keeps its stored value; a non-empty
  \<^verbatim>\<open>date\<close> is written as the ISO string of the parsed time, a missing or empty one leaves
  the stored date; \<^verbatim>\<open>updatedAt\<close> becomes the server timestamp whichever fields were
  sent; \<^verbatim>\<open>createdBy\<close> and \<^verbatim>\<open>createdAt\<close> stay.
\<close>

theorem update_partial_write:
  assumes "doc_get st mid = Some m" and "createdBy m = uid"
    and "\<forall>s. req_date body = Some s \<and> s \<noteq> [] \<longrightarrow> Date_parse env s \<noteq> None"
  shows "\<exists>m'. status_of (put_meeting env st uid mid body) = 200
          \<and> doc_get (store_of (put_meeting env st uid mid body)) mid = Some m'
          \<and> title m' = (case req_title body of None \<Rightarrow> title m | Some v \<Rightarrow> v)
          \<and> date m' = (case req_date body of None \<Rightarrow> date m
                        | Some s \<Rightarrow> if s = [] then date m
                                   else map_option (toISOString env) (Date_parse env s))
          \<and> location m' = (case req_location body of None \<Rightarrow> location m | Some v \<Rightarrow> v)
          \<and> notes_txt m' = (case req_notes body of None \<Rightarrow> notes_txt m | Some v \<Rightarrow> v)
          \<and> participants m'
              = (case req_participants body of None \<Rightarrow> participants m | Some v \<Rightarrow> Some v)
          \<and> updatedAt m' = Some (serverTimestamp env)
          \<and> createdBy m' = createdBy m \<and> createdAt m' = createdAt m"
proof -
  let ?md = "case req_date body of None \<Rightarrow> date m
             | Some s \<Rightarrow> if s = [] then date m
                        else map_option (toISOString env) (Date_parse env s)"
  have d: "put_meetingDate env (req_date body) (date m) = Some ?md"
  proof (cases "req_date body")
    case None
    then show ?thesis by (simp add: put_meetingDate_def)
  next
    case (Some s)
    show ?thesis
    proof (cases "s = []")
      case True
      with Some show ?thesis by (simp add: put_meetingDate_def)
    next
      case False
      with Some assms(3) obtain t where "Date_parse env s = Some t" by auto
      with Some False show ?thesis by (simp add: put_meetingDate_def)
    qed
  qed
  from put_meeting_creator [OF assms(1,2) d]
  obtain st' where r: "put_meeting env st uid mid body
           = ((200, MeetingJson ''Meeting updated successfully''
                 (shape env mid
                    (merge_fields
                       \<lparr> upd_title = req_title body, upd_date = ?md,
                         upd_location = req_location body, upd_notes = req_notes body,
                         upd_participants = req_participants body,
                         upd_updatedAt = Some (serverTimestamp env) \<rparr> m))), st')"
    and g: "doc_get st' mid
             = Some (merge_fields
                       \<lparr> upd_title = req_title body, upd_date = ?md,
                         upd_location = req_location body, upd_notes = req_notes body,
                         upd_participants = req_participants body,
                         upd_updatedAt = Some (serverTimestamp env) \<rparr> m)"
    by blast
  have s: "status_of (put_meeting env st uid mid body) = 200"
    "store_of (put_meeting env st uid mid body) = st'"
    using r by (simp_all add: status_of_def store_of_def)
  show ?thesis
    unfolding s g using assms(3)
    by (auto simp: merge_fields_def split: option.splits)
qed

theorem update_partial_write_witness:
  "doc_get sample_store ''m1'' = Some sample_meeting \<and> createdBy sample_meeting = ''alice''
   \<and> req_date (empty_body\<lparr>req_date := Some ''2024-01-01T00:00:00.000Z'',
                            req_location := Some ''Room 2''\<rparr>)
       = Some ''2024-01-01T00:00:00.000Z''
   \<and> Date_parse sample_env ''2024-01-01T00:00:00.000Z'' = Some 1704067200000
   \<and> (\<exists>m'. status_of (put_meeting sample_env sample_store ''alice'' ''m1''
               (empty_body\<lparr>req_date := Some ''2024-01-01T00:00:00.000Z'',
                            req_location := Some ''Room 2''\<rparr>)) = 200
          \<and> doc_get (store_of (put_meeting sample_env sample_store ''alice'' ''m1''
               (empty_body\<lparr>req_date := Some ''2024-01-01T00:00:00.000Z'',
                            req_location := Some ''Room 2''\<rparr>))) ''m1'' = Some m'
          \<and> title m' = ''Standup'' \<and> date m' = Some ''2024-01-01T00:00:00.000Z''
          \<and> location m' = ''Room 2'' \<and> notes_txt m' = ''weekly''
          \<and> participants m' = Some [''bob''] \<and> updatedAt m' = Some 3000)"
proof -
  let ?b = "empty_body\<lparr>req_date := Some ''2024-01-01T00:00:00.000Z'',
                        req_location := Some ''Room 2''\<rparr>"
  have h1: "doc_get sample_store ''m1'' = Some sample_meeting"
    by (simp add: doc_get_def sample_store_def)
  have h2: "createdBy sample_meeting = ''alice''"
    by (simp add: sample_meeting_def)
  have h3: "\<forall>s. req_date ?b = Some s \<and> s \<noteq> [] \<longrightarrow> Date_parse sample_env s \<noteq> None"
    by (simp add: sample_env_def sample_parse_def)
  have e: "req_title ?b = None" "req_date ?b = Some ''2024-01-01T00:00:00.000Z''"
    "req_location ?b = Some ''Room 2''" "req_notes ?b = None" "req_participants ?b = None"
    "Date_parse sample_env ''2024-01-01T00:00:00.000Z'' = Some 1704067200000"
    "toISOString sample_env 1704067200000 = ''2024-01-01T00:00:00.000Z''"
    "serverTimestamp sample_env = 3000"
    "title sample_meeting = ''Standup''" "notes_txt sample_meeting = ''weekly''"
    "participants sample_meeting = Some [''bob'']"
    by (simp_all add: empty_body_def sample_env_def sample_parse_def sample_iso_def
        sample_meeting_def)
  have c: "\<exists>m'. status_of (put_meeting sample_env sample_store ''alice'' ''m1'' ?b) = 200
          \<and> doc_get (store_of (put_meeting sample_env sample_store ''alice'' ''m1'' ?b)) ''m1''
              = Some m'
          \<and> title m' = ''Standup'' \<and> date m' = Some ''2024-01-01T00:00:00.000Z''
          \<and> location m' = ''Room 2'' \<and> notes_txt m' = ''weekly''
          \<and> participants m' = Some [''bob''] \<and> updatedAt m' = Some 3000"
    using update_partial_write [OF h1 h2 h3] by (auto simp: e)
  from h1 h2 e(2,6) c show ?thesis by blast
qed

text \<open>
  The claim C4 as written fails when the \<^verbatim>\<open>date\<close> sent does not parse: the creator's
  request is answered 400, the \<^verbatim>\<open>location\<close> sent with it is not written and
  \<^verbatim>\<open>updatedAt\<close> is not refreshed.
\<close>

theorem update_invalid_date_counterexample:
  "doc_get sample_store ''m1'' = Some sample_meeting \<and> createdBy sample_meeting = ''alice''
   \<and> location sample_meeting = ''Room 1'' \<and> updatedAt sample_meeting = Some 1000
   \<and> serverTimestamp sample_env = 3000
   \<and> put_meeting sample_env sample_store ''alice'' ''m1''
        (empty_body\<lparr>req_date := Some ''next week'', req_location := Some ''Room 2''\<rparr>)
       = ((400, ErrorJson ''Invalid date format''), sample_store)"
  by (simp add: doc_get_def sample_store_def sample_meeting_def put_meeting_def
      put_meetingDate_def sample_env_def sample_parse_def)

text \<open>
  C9. Update writes the \<^verbatim>\<open>participants\<close> of the body as given, with no test for
  duplicates: whatever sequence the creator sends (here with no \<^verbatim>\<open>date\<close>) is the stored
  one afterwards. So there is an Update request by the creator, on a meeting whose participants
  are distinct, after which the stored sequence has a duplicate.
\<close>

theorem update_stores_duplicates:
  "(doc_get st mid = Some m \<and> createdBy m = uid \<and> req_date body = None
      \<and> req_participants body = Some ps \<longrightarrow>
      status_of (put_meeting env st uid mid body) = 200
      \<and> (\<exists>m'. doc_get (store_of (put_meeting env st uid mid body)) mid = Some m'
             \<and> participants m' = Some ps))
   \<and> (\<exists>m m'. doc_get sample_store ''m1'' = Some m \<and> createdBy m = ''alice''
         \<and> distinct (or_nil (participants m))
         \<and> status_of (put_meeting sample_env sample_store ''alice'' ''m1''
              (empty_body\<lparr>req_participants := Some [''bob'', ''bob'']\<rparr>)) = 200
         \<and> doc_get (store_of (put_meeting sample_env sample_store ''alice'' ''m1''
              (empty_body\<lparr>req_participants := Some [''bob'', ''bob'']\<rparr>))) ''m1'' = Some m'
         \<and> participants m' = Some [''bob'', ''bob'']
         \<and> \<not> distinct (or_nil (participants m')))"
proof (intro conjI impI)
  assume a: "doc_get st mid = Some m \<and> createdBy m = uid \<and> req_date body = None
      \<and> req_participants body = Some ps"
  then have d: "put_meetingDate env (req_date body) (date m) = Some (date m)"
    by (simp add: put_meetingDate_def)
  from a put_meeting_creator [OF _ _ d, of st mid uid]
  obtain st' where r: "put_meeting env st uid mid body
           = ((200, MeetingJson ''Meeting updated successfully''
                 (shape env mid
                    (merge_fields
                       \<lparr> upd_title = req_title body, upd_date = date m,
                         upd_location = req_location body, upd_notes = req_notes body,
                         upd_participants = req_participants body,
                         upd_updatedAt = Some (serverTimestamp env) \<rparr> m))), st')"
    and g: "doc_get st' mid
             = Some (merge_fields
                       \<lparr> upd_title = req_title body, upd_date = date m,
                         upd_location = req_location body, upd_notes = req_notes body,
                         upd_participants = req_participants body,
                         upd_updatedAt = Some (serverTimestamp env) \<rparr> m)"
    by blast
  have s: "status_of (put_meeting env st uid mid body) = 200"
    "store_of (put_meeting env st uid mid body) = st'"
    using r by (simp_all add: status_of_def store_of_def)
  show "status_of (put_meeting env st uid mid body) = 200" by (rule s(1))
  show "\<exists>m'. doc_get (store_of (put_meeting env st uid mid body)) mid = Some m'
             \<and> participants m' = Some ps"
    unfolding s g using a by (simp add: merge_fields_def)
next
  show "\<exists>m m'. doc_get sample_store ''m1'' = Some m \<and> createdBy m = ''alice''
         \<and> distinct (or_nil (participants m))
         \<and> status_of (put_meeting sample_env sample_store ''alice'' ''m1''
              (empty_body\<lparr>req_participants := Some [''bob'', ''bob'']\<rparr>)) = 200
         \<and> doc_get (store_of (put_meeting sample_env sample_store ''alice'' ''m1''
              (empty_body\<lparr>req_participants := Some [''bob'', ''bob'']\<rparr>))) ''m1'' = Some m'
         \<and> participants m' = Some [''bob'', ''bob'']
         \<and> \<not> distinct (or_nil (participants m'))"
    by (simp add: doc_get_def sample_store_def sample_meeting_def put_meeting_def
        put_meetingDate_def empty_body_def doc_update_def merge_fields_def or_nil_def
        status_of_def store_of_def)
qed

theorem update_stores_duplicates_witness:
  "(doc_get sample_store ''m2'' = Some team_meeting \<and> createdBy team_meeting = ''alice''
    \<and> req_date (empty_body\<lparr>req_participants := Some [''carol'', ''carol'']\<rparr>) = None
    \<and> req_participants (empty_body\<lparr>req_participants := Some [''carol'', ''carol'']\<rparr>)
        = Some [''carol'', ''carol''])
   \<and> status_of (put_meeting sample_env sample_store ''alice'' ''m2''
        (empty_body\<lparr>req_participants := Some [''carol'', ''carol'']\<rparr>)) = 200
   \<and> (\<exists>m'. doc_get (store_of (put_meeting sample_env sample_store ''alice'' ''m2''
               (empty_body\<lparr>req_participants := Some [''carol'', ''carol'']\<rparr>))) ''m2''
             = Some m'
          \<and> participants m' = Some [''carol'', ''carol''])"
proof -
  let ?b = "empty_body\<lparr>req_participants := Some [''carol'', ''carol'']\<rparr>"
  have h: "doc_get sample_store ''m2'' = Some team_meeting \<and> createdBy team_meeting = ''alice''
    \<and> req_date ?b = None \<and> req_participants ?b = Some [''carol'', ''carol'']"
    by (simp add: doc_get_def sample_store_def team_meeting_def empty_body_def)
  from update_stores_duplicates
         [of sample_store "''m2''" team_meeting "''alice''" ?b "[''carol'', ''carol'']" sample_env]
       h
  have c: "status_of (put_meeting sample_env sample_store ''alice'' ''m2'' ?b) = 200
      \<and> (\<exists>m'. doc_get (store_of (put_meeting sample_env sample_store ''alice'' ''m2'' ?b)) ''m2''
                = Some m'
             \<and> participants m' = Some [''carol'', ''carol''])"
    by blast
  from h c show ?thesis by blast
qed

section \<open>Participants\<close>

lemma participants_payload_get:
  assumes "doc_get st mid = Some m"
  shows "\<exists>st'. doc_update st mid (participants_payload env ps) = Some st'
           \<and> doc_get st' mid
               = Some (m\<lparr>participants := Some ps, updatedAt := Some (serverTimestamp env)\<rparr>)
           \<and> (\<forall>j. j \<noteq> mid \<longrightarrow> doc_get st' j = doc_get st j)"
proof -
  have "merge_fields (participants_payload env ps) m
          = m\<lparr>participants := Some ps, updatedAt := Some (serverTimestamp env)\<rparr>"
    by (simp add: merge_fields_def participants_payload_def)
  with doc_update_get [OF assms, of "participants_payload env ps"] show ?thesis by simp
qed

text \<open>
  C5, as the code has it. For an Add-Participant request by the creator of an existing meeting
  whose \<^verbatim>\<open>participantId\<close> is a non-empty string: if the identifier is already in the
  meeting's participants the request is answered 400 and the store is left as it was; otherwise
  it is answered 200 with the sequence extended by the identifier at its end, and the stored
  record has that sequence and the server timestamp as \<^verbatim>\<open>updatedAt\<close>.
\<close>

theorem add_participant_result:
  assumes "doc_get st mid = Some m" and "createdBy m = uid"
    and "req_participantId body = Some pid" and "pid \<noteq> []"
  shows "(pid \<in> set (or_nil (participants m)) \<longrightarrow>
            post_participants env st uid mid body
              = ((400, ErrorJson ''Participant already added to meeting''), st))
       \<and> (pid \<notin> set (or_nil (participants m)) \<longrightarrow>
            fst (post_participants env st uid mid body)
              = (200, ParticipantsJson ''Participant added successfully''
                        (or_nil (participants m) @ [pid]))
            \<and> doc_get (store_of (post_participants env st uid mid body)) mid
                = Some (m\<lparr>participants := Some (or_nil (participants m) @ [pid]),
                           updatedAt := Some (serverTimestamp env)\<rparr>))"
proof (intro conjI impI)
  assume "pid \<in> set (or_nil (participants m))"
  then show "post_participants env st uid mid body
              = ((400, ErrorJson ''Participant already added to meeting''), st)"
    using assms by (simp add: post_participants_def)
next
  assume n: "pid \<notin> set (or_nil (participants m))"
  from participants_payload_get [OF assms(1), of env "or_nil (participants m) @ [pid]"]
  obtain st' where u: "doc_update st mid
                         (participants_payload env (or_nil (participants m) @ [pid])) = Some st'"
    and g: "doc_get st' mid
              = Some (m\<lparr>participants := Some (or_nil (participants m) @ [pid]),
                         updatedAt := Some (serverTimestamp env)\<rparr>)"
    by blast
  have r: "post_participants env st uid mid body
             = ((200, ParticipantsJson ''Participant added successfully''
                        (or_nil (participants m) @ [pid])), st')"
    using assms n u by (simp add: post_participants_def)
  show "fst (post_participants env st uid mid body)
              = (200, ParticipantsJson ''Participant added successfully''
                        (or_nil (participants m) @ [pid]))"
    using r by simp
  show "doc_get (store_of (post_participants env st uid mid body)) mid
                = Some (m\<lparr>participants := Some (or_nil (participants m) @ [pid]),
                           updatedAt := Some (serverTimestamp env)\<rparr>)"
    using r g by (simp add: store_of_def)
qed

theorem add_participant_result_witness:
  "doc_get sample_store ''m1'' = Some sample_meeting \<and> createdBy sample_meeting = ''alice''
   \<and> ''bob'' \<in> set (or_nil (participants sample_meeting))
   \<and> ''carol'' \<notin> set (or_nil (participants sample_meeting))
   \<and> post_participants sample_env sample_store ''alice'' ''m1''
        (empty_body\<lparr>req_participantId := Some ''bob''\<rparr>)
       = ((400, ErrorJson ''Participant already added to meeting''), sample_store)
   \<and> fst (post_participants sample_env sample_store ''alice'' ''m1''
        (empty_body\<lparr>req_participantId := Some ''carol''\<rparr>))
       = (200, ParticipantsJson ''Participant added successfully'' [''bob'', ''carol''])
   \<and> doc_get (store_of (post_participants sample_env sample_store ''alice'' ''m1''
        (empty_body\<lparr>req_participantId := Some ''carol''\<rparr>))) ''m1''
       = Some (sample_meeting\<lparr>participants := Some [''bob'', ''carol''],
                              updatedAt := Some 3000\<rparr>)"
proof -
  have h1: "doc_get sample_store ''m1'' = Some sample_meeting"
    by (simp add: doc_get_def sample_store_def)
  have h2: "createdBy sample_meeting = ''alice''"
    by (simp add: sample_meeting_def)
  have h3: "req_participantId (empty_body\<lparr>req_participantId := Some ''bob''\<rparr>) = Some ''bob''"
    "req_participantId (empty_body\<lparr>req_participantId := Some ''carol''\<rparr>) = Some ''carol''"
    by simp_all
  have h4: "''bob'' \<noteq> []" "''carol'' \<noteq> []" by simp_all
  have e: "or_nil (participants sample_meeting) = [''bob'']" "serverTimestamp sample_env = 3000"
    by (simp_all add: or_nil_def sample_meeting_def sample_env_def)
  have p: "''bob'' \<in> set (or_nil (participants sample_meeting))"
    "''carol'' \<notin> set (or_nil (participants sample_meeting))"
    by (simp_all add: e)
  from add_participant_result [OF h1 h2 h3(1) h4(1), of sample_env]
       add_participant_result [OF h1 h2 h3(2) h4(2), of sample_env] h1 h2 p
  show ?thesis by (simp add: e)
qed

text \<open>
  The claim C5 as written fails for the empty identifier: \<^verbatim>\<open>participantId: ""\<close> is not
  among the participants, yet it is not appended; the creator is answered 400
  (\<^verbatim>\<open>Participant ID is required\<close>).
\<close>

theorem add_empty_participant_counterexample:
  "doc_get sample_store ''m1'' = Some sample_meeting \<and> createdBy sample_meeting = ''alice''
   \<and> participants sample_meeting = Some [''bob'']
   \<and> post_participants sample_env sample_store ''alice'' ''m1''
        (empty_body\<lparr>req_participantId := Some ''''\<rparr>)
       = ((400, ErrorJson ''Participant ID is required''), sample_store)"
  by (simp add: doc_get_def sample_store_def sample_meeting_def post_participants_def)

text \<open>
  C6. On an existing meeting, Remove-Participant answers 200 only when the caller is the
  creator or names their own identifier; any other caller is answered 403; a caller who is
  allowed and names an identifier that is not among the participants is answered 400. The
  store is left as it was in both error cases.
\<close>

theorem remove_participant_authorization:
  assumes "doc_get st mid = Some m"
  shows "(status_of (delete_participant env st uid mid pid) = 200 \<longrightarrow>
            createdBy m = uid \<or> uid = pid)
       \<and> (createdBy m \<noteq> uid \<and> uid \<noteq> pid \<longrightarrow>
            delete_participant env st uid mid pid
              = ((403, ErrorJson ''Unauthorized to remove this participant''), st))
       \<and> ((createdBy m = uid \<or> uid = pid) \<and> pid \<notin> set (or_nil (participants m)) \<longrightarrow>
            delete_participant env st uid mid pid
              = ((400, ErrorJson ''Participant not found in meeting''), st))"
  using assms
  by (auto simp: delete_participant_def status_of_def split: option.splits)

theorem remove_participant_authorization_witness:
  "doc_get sample_store ''m3'' = Some review_meeting
   \<and> status_of (delete_participant sample_env sample_store ''bob'' ''m3'' ''bob'') = 200
   \<and> (createdBy review_meeting = ''bob'' \<or> ''bob'' = ''bob'')
   \<and> (createdBy review_meeting \<noteq> ''dave'' \<and> ''dave'' \<noteq> ''bob'')
   \<and> delete_participant sample_env sample_store ''dave'' ''m3'' ''bob''
       = ((403, ErrorJson ''Unauthorized to remove this participant''), sample_store)
   \<and> ((createdBy review_meeting = ''carol'' \<or> ''carol'' = ''erin'')
       \<and> ''erin'' \<notin> set (or_nil (participants review_meeting)))
   \<and> delete_participant sample_env sample_store ''carol'' ''m3'' ''erin''
       = ((400, ErrorJson ''Participant not found in meeting''), sample_store)"
proof -
  have h: "doc_get sample_store ''m3'' = Some review_meeting"
    by (simp add: doc_get_def sample_store_def)
  have s: "status_of (delete_participant sample_env sample_store ''bob'' ''m3'' ''bob'') = 200"
    by (simp add: delete_participant_def doc_get_def sample_store_def review_meeting_def
        or_nil_def doc_update_def status_of_def)
  have a: "createdBy review_meeting \<noteq> ''dave'' \<and> ''dave'' \<noteq> ''bob''"
    by (simp add: review_meeting_def)
  have b: "(createdBy review_meeting = ''carol'' \<or> ''carol'' = ''erin'')
       \<and> ''erin'' \<notin> set (or_nil (participants review_meeting))"
    by (simp add: review_meeting_def or_nil_def)
  from remove_participant_authorization [OF h, of sample_env "''bob''" "''bob''"]
       remove_participant_authorization [OF h, of sample_env "''dave''" "''bob''"]
       remove_participant_authorization [OF h, of sample_env "''carol''" "''erin''"]
       h s a b
  show ?thesis by blast
qed

text \<open>
  C10. When Remove-Participant answers 200, the sequence it returns is the one it stores, and
  it is the stored sequence without the identifier: the identifier does not occur in it any
  more, however often it occurred before, and what remains is a subsequence of the old one in
  which every other identifier occurs as often as before, so the other entries keep their
  order.
\<close>

theorem remove_participant_result:
  assumes "status_of (delete_participant env st uid mid pid) = 200"
  shows "\<exists>m ps'. doc_get st mid = Some m
           \<and> fst (delete_participant env st uid mid pid)
               = (200, ParticipantsJson ''Participant removed successfully'' ps')
           \<and> doc_get (store_of (delete_participant env st uid mid pid)) mid
               = Some (m\<lparr>participants := Some ps', updatedAt := Some (serverTimestamp env)\<rparr>)
           \<and> ps' = filter (\<lambda>i. i \<noteq> pid) (or_nil (participants m))
           \<and> pid \<notin> set ps'
           \<and> subseq ps' (or_nil (participants m))
           \<and> (\<forall>x. x \<noteq> pid \<longrightarrow> count_list ps' x = count_list (or_nil (participants m)) x)"
proof -
  from assms obtain m where m: "doc_get st mid = Some m"
    by (auto simp: delete_participant_def status_of_def split: option.splits)
  let ?ps = "or_nil (participants m)"
  let ?ps' = "filter (\<lambda>i. i \<noteq> pid) ?ps"
  from assms m have auth: "\<not> (createdBy m \<noteq> uid \<and> uid \<noteq> pid)" and mem: "pid \<in> set ?ps"
    by (auto simp: delete_participant_def status_of_def split: if_splits)
  from participants_payload_get [OF m, of env ?ps']
  obtain st' where u: "doc_update st mid (participants_payload env ?ps') = Some st'"
    and g: "doc_get st' mid
              = Some (m\<lparr>participants := Some ?ps', updatedAt := Some (serverTimestamp env)\<rparr>)"
    by blast
  have r: "delete_participant env st uid mid pid
             = ((200, ParticipantsJson ''Participant removed successfully'' ?ps'), st')"
    using m auth mem u by (simp add: delete_participant_def)
  have "fst (delete_participant env st uid mid pid)
          = (200, ParticipantsJson ''Participant removed successfully'' ?ps')"
    using r by simp
  moreover have "doc_get (store_of (delete_participant env st uid mid pid)) mid
          = Some (m\<lparr>participants := Some ?ps', updatedAt := Some (serverTimestamp env)\<rparr>)"
    using r g by (simp add: store_of_def)
  moreover have "pid \<notin> set ?ps'" by simp
  moreover have "subseq ?ps' ?ps" by simp
  moreover have "\<forall>x. x \<noteq> pid \<longrightarrow> count_list ?ps' x = count_list ?ps x"
    by (simp add: count_list_filter_neq)
  ultimately show ?thesis using m by blast
qed

theorem remove_participant_result_witness:
  "status_of (delete_participant sample_env sample_store ''carol'' ''m3'' ''bob'') = 200
   \<and> participants review_meeting = Some [''bob'', ''dave'', ''bob'', ''alice'']
   \<and> fst (delete_participant sample_env sample_store ''carol'' ''m3'' ''bob'')
       = (200, ParticipantsJson ''Participant removed successfully'' [''dave'', ''alice''])
   \<and> doc_get (store_of (delete_participant sample_env sample_store ''carol'' ''m3'' ''bob'')) ''m3''
       = Some (review_meeting\<lparr>participants := Some [''dave'', ''alice''],
                              updatedAt := Some 3000\<rparr>)"
proof -
  have s: "status_of (delete_participant sample_env sample_store ''carol'' ''m3'' ''bob'') = 200"
    by (simp add: delete_participant_def doc_get_def sample_store_def review_meeting_def
        or_nil_def doc_update_def status_of_def)
  have g: "doc_get sample_store ''m3'' = Some review_meeting"
    by (simp add: doc_get_def sample_store_def)
  have p: "participants review_meeting = Some [''bob'', ''dave'', ''bob'', ''alice'']"
    by (simp add: review_meeting_def)
  have e: "serverTimestamp sample_env = 3000" by (simp add: sample_env_def)
  from remove_participant_result [OF s]
  obtain m ps' where m: "doc_get sample_store ''m3'' = Some m"
    and r: "fst (delete_participant sample_env sample_store ''carol'' ''m3'' ''bob'')
               = (200, ParticipantsJson ''Participant removed successfully'' ps')"
    and d: "doc_get (store_of (delete_participant sample_env sample_store ''carol'' ''m3'' ''bob'')) ''m3''
               = Some (m\<lparr>participants := Some ps', updatedAt := Some (serverTimestamp sample_env)\<rparr>)"
    and f: "ps' = filter (\<lambda>i. i \<noteq> ''bob'') (or_nil (participants m))"
    by blast
  from m g have mm: "m = review_meeting" by simp
  from f have ps: "ps' = [''dave'', ''alice'']" by (simp add: mm p or_nil_def)
  from s p r d show ?thesis by (simp add: mm ps e)
qed

section \<open>Reading\<close>

text \<open>
  C7. Get-Meeting-By-Id answers 404 for an identifier the store does not have; 403 for a
  caller who is neither the creator of the meeting nor among its participants; and for the
  creator or a participant 200 with the record, its two timestamps rendered by
  \<^verbatim>\<open>toISOString\<close>.
\<close>

theorem get_meeting_access:
  "(doc_get st mid = None \<longrightarrow>
      get_meeting env st uid mid = (404, ErrorJson ''Meeting not found''))
   \<and> (doc_get st mid = Some m \<and> createdBy m \<noteq> uid
        \<and> uid \<notin> set (or_nil (participants m)) \<longrightarrow>
      get_meeting env st uid mid = (403, ErrorJson ''Access denied''))
   \<and> (doc_get st mid = Some m \<and> (createdBy m = uid \<or> uid \<in> set (or_nil (participants m)))
        \<longrightarrow>
      get_meeting env st uid mid
        = (200, MeetingRecord
             (mid, \<lparr> title = title m, date = date m, location = location m,
                     notes_txt = notes_txt m, participants = participants m,
                     createdBy = createdBy m,
                     createdAt = map_option (toISOString env) (createdAt m),
                     updatedAt = map_option (toISOString env) (updatedAt m) \<rparr>)))"
  by (auto simp: get_meeting_def shape_def or_nil_def map_option_case split: option.splits)

theorem get_meeting_access_witness:
  "doc_get sample_store ''m7'' = None
   \<and> get_meeting sample_env sample_store ''alice'' ''m7'' = (404, ErrorJson ''Meeting not found'')
   \<and> (doc_get sample_store ''m1'' = Some sample_meeting \<and> createdBy sample_meeting \<noteq> ''carol''
       \<and> ''carol'' \<notin> set (or_nil (participants sample_meeting)))
   \<and> get_meeting sample_env sample_store ''carol'' ''m1'' = (403, ErrorJson ''Access denied'')
   \<and> (createdBy sample_meeting = ''bob'' \<or> ''bob'' \<in> set (or_nil (participants sample_meeting)))
   \<and> get_meeting sample_env sample_store ''bob'' ''m1''
       = (200, MeetingRecord
            (''m1'', \<lparr> title = ''Standup'', date = Some ''1970-01-01T00:00:00.000Z'',
                       location = ''Room 1'', notes_txt = ''weekly'',
                       participants = Some [''bob''], createdBy = ''alice'',
                       createdAt = Some ''1970-01-01T00:00:01.000Z'',
                       updatedAt = Some ''1970-01-01T00:00:01.000Z'' \<rparr>))"
proof -
  have h0: "doc_get sample_store ''m7'' = None"
    by (simp add: doc_get_def sample_store_def)
  have h1: "doc_get sample_store ''m1'' = Some sample_meeting \<and> createdBy sample_meeting \<noteq> ''carol''
       \<and> ''carol'' \<notin> set (or_nil (participants sample_meeting))"
    by (simp add: doc_get_def sample_store_def sample_meeting_def or_nil_def)
  have h2: "doc_get sample_store ''m1'' = Some sample_meeting
       \<and> (createdBy sample_meeting = ''bob'' \<or> ''bob'' \<in> set (or_nil (participants sample_meeting)))"
    by (simp add: doc_get_def sample_store_def sample_meeting_def or_nil_def)
  from get_meeting_access [of sample_store "''m7''" sample_env "''alice''" sample_meeting] h0
  have c0: "get_meeting sample_env sample_store ''alice'' ''m7''
              = (404, ErrorJson ''Meeting not found'')"
    by blast
  from get_meeting_access [of sample_store "''m1''" sample_env "''carol''" sample_meeting] h1
  have c1: "get_meeting sample_env sample_store ''carol'' ''m1'' = (403, ErrorJson ''Access denied'')"
    by blast
  from get_meeting_access [of sample_store "''m1''" sample_env "''bob''" sample_meeting] h2
  have c2: "get_meeting sample_env sample_store ''bob'' ''m1''
       = (200, MeetingRecord
            (''m1'', \<lparr> title = title sample_meeting, date = date sample_meeting,
                       location = location sample_meeting,
                       notes_txt = notes_txt sample_meeting,
                       participants = participants sample_meeting,
                       createdBy = createdBy sample_meeting,
                       createdAt = map_option (toISOString sample_env) (createdAt sample_meeting),
                       updatedAt = map_option (toISOString sample_env) (updatedAt sample_meeting) \<rparr>))"
    by blast
  have c2': "get_meeting sample_env sample_store ''bob'' ''m1''
       = (200, MeetingRecord
            (''m1'', \<lparr> title = ''Standup'', date = Some ''1970-01-01T00:00:00.000Z'',
                       location = ''Room 1'', notes_txt = ''weekly'',
                       participants = Some [''bob''], createdBy = ''alice'',
                       createdAt = Some ''1970-01-01T00:00:01.000Z'',
                       updatedAt = Some ''1970-01-01T00:00:01.000Z'' \<rparr>))"
    unfolding c2 by (simp add: sample_meeting_def sample_env_def sample_iso_def)
  from h0 h1 h2 c0 c1 c2' show ?thesis by blast
qed

lemma shape_fields:
  "shape env k d
     = (k, \<lparr> title = title d, date = date d, location = location d,
              notes_txt = notes_txt d, participants = participants d,
              createdBy = createdBy d,
              createdAt = map_option (toISOString env) (createdAt d),
              updatedAt = map_option (toISOString env) (updatedAt d) \<rparr>)"
  by (simp add: shape_def map_option_case)

lemma listed_get_meetings:
  "get_meetings env st uid = (200, MeetingsJson (listed (get_meetings env st uid)))"
  "set (listed (get_meetings env st uid))
     = (\<lambda>(k, d). shape env k d) ` {(k, d). (k, d) \<in> set st \<and> createdBy d = uid}"
  "length (listed (get_meetings env st uid))
     = length (filter (\<lambda>(k, d). createdBy d = uid) st)"
  by (auto simp: get_meetings_def listed_def where_createdBy_def forEach_push_eq)

lemma array_contains_or_nil:
  "(\<lambda>(k, d). case participants d of None \<Rightarrow> False | Some ps \<Rightarrow> uid \<in> set ps)
     = (\<lambda>(k, d). uid \<in> set (or_nil (participants d)))"
  by (auto simp: or_nil_def fun_eq_iff split: option.splits)

lemma listed_get_meetings_participating:
  "get_meetings_participating env st uid
     = (200, MeetingsJson (listed (get_meetings_participating env st uid)))"
  "set (listed (get_meetings_participating env st uid))
     = (\<lambda>(k, d). shape env k d)
         ` {(k, d). (k, d) \<in> set st \<and> uid \<in> set (or_nil (participants d))}"
  "length (listed (get_meetings_participating env st uid))
     = length (filter (\<lambda>(k, d). uid \<in> set (or_nil (participants d))) st)"
  by (auto simp: get_meetings_participating_def listed_def
      where_participants_array_contains_def forEach_push_eq array_contains_or_nil)

text \<open>
  C8. List-Owned answers 200 with a list in which every record has the caller as its
  \<^verbatim>\<open>createdBy\<close> and is a stored document under its identifier, with the stored fields and
  the timestamps rendered by \<^verbatim>\<open>toISOString\<close>; every stored document whose
  \<^verbatim>\<open>createdBy\<close> is the caller is in the list, and the list has as many entries as there
  are such documents. List-Participating does the same for the documents whose
  \<^verbatim>\<open>participants\<close> contain the caller. A document of which the caller is both the creator
  and a participant is in both lists. Nothing is said about the order of a list.
\<close>

theorem list_queries_exact:
  "get_meetings env st uid = (200, MeetingsJson (listed (get_meetings env st uid)))
   \<and> (\<forall>(k, j) \<in> set (listed (get_meetings env st uid)).
         createdBy j = uid
         \<and> (\<exists>d. (k, d) \<in> set st
              \<and> j = \<lparr> title = title d, date = date d, location = location d,
                      notes_txt = notes_txt d, participants = participants d,
                      createdBy = createdBy d,
                      createdAt = map_option (toISOString env) (createdAt d),
                      updatedAt = map_option (toISOString env) (updatedAt d) \<rparr>))
   \<and> (\<forall>(k, d) \<in> set st. createdBy d = uid \<longrightarrow>
         (k, \<lparr> title = title d, date = date d, location = location d,
               notes_txt = notes_txt d, participants = participants d,
               createdBy = createdBy d,
               createdAt = map_option (toISOString env) (createdAt d),
               updatedAt = map_option (toISOString env) (updatedAt d) \<rparr>)
           \<in> set (listed (get_meetings env st uid)))
   \<and> length (listed (get_meetings env st uid))
       = length (filter (\<lambda>(k, d). createdBy d = uid) st)
   \<and> get_meetings_participating env st uid
       = (200, MeetingsJson (listed (get_meetings_participating env st uid)))
   \<and> (\<forall>(k, j) \<in> set (listed (get_meetings_participating env st uid)).
         uid \<in> set (or_nil (participants j))
         \<and> (\<exists>d. (k, d) \<in> set st
              \<and> j = \<lparr> title = title d, date = date d, location = location d,
                      notes_txt = notes_txt d, participants = participants d,
                      createdBy = createdBy d,
                      createdAt = map_option (toISOString env) (createdAt d),
                      updatedAt = map_option (toISOString env) (updatedAt d) \<rparr>))
   \<and> (\<forall>(k, d) \<in> set st. uid \<in> set (or_nil (participants d)) \<longrightarrow>
         (k, \<lparr> title = title d, date = date d, location = location d,
               notes_txt = notes_txt d, participants = participants d,
               createdBy = createdBy d,
               createdAt = map_option (toISOString env) (createdAt d),
               updatedAt = map_option (toISOString env) (updatedAt d) \<rparr>)
           \<in> set (listed (get_meetings_participating env st uid)))
   \<and> length (listed (get_meetings_participating env st uid))
       = length (filter (\<lambda>(k, d). uid \<in> set (or_nil (participants d))) st)
   \<and> (\<forall>(k, d) \<in> set st. createdBy d = uid \<and> uid \<in> set (or_nil (participants d)) \<longrightarrow>
         (k, \<lparr> title = title d, date = date d, location = location d,
               notes_txt = notes_txt d, participants = participants d,
               createdBy = createdBy d,
               createdAt = map_option (toISOString env) (createdAt d),
               updatedAt = map_option (toISOString env) (updatedAt d) \<rparr>)
           \<in> set (listed (get_meetings env st uid))
             \<inter> set (listed (get_meetings_participating env st uid)))"
proof (intro conjI)
  show "get_meetings env st uid = (200, MeetingsJson (listed (get_meetings env st uid)))"
    by (rule listed_get_meetings(1))
  show "get_meetings_participating env st uid
       = (200, MeetingsJson (listed (get_meetings_participating env st uid)))"
    by (rule listed_get_meetings_participating(1))
  show "length (listed (get_meetings env st uid))
       = length (filter (\<lambda>(k, d). createdBy d = uid) st)"
    by (rule listed_get_meetings(3))
  show "length (listed (get_meetings_participating env st uid))
       = length (filter (\<lambda>(k, d). uid \<in> set (or_nil (participants d))) st)"
    by (rule listed_get_meetings_participating(3))
  show "\<forall>(k, j) \<in> set (listed (get_meetings env st uid)).
         createdBy j = uid
         \<and> (\<exists>d. (k, d) \<in> set st
              \<and> j = \<lparr> title = title d, date = date d, location = location d,
                      notes_txt = notes_txt d, participants = participants d,
                      createdBy = createdBy d,
                      createdAt = map_option (toISOString env) (createdAt d),
                      updatedAt = map_option (toISOString env) (updatedAt d) \<rparr>)"
    unfolding listed_get_meetings(2) by (auto simp: shape_fields)
  show "\<forall>(k, d) \<in> set st. createdBy d = uid \<longrightarrow>
         (k, \<lparr> title = title d, date = date d, location = location d,
               notes_txt = notes_txt d, participants = participants d,
               createdBy = createdBy d,
               createdAt = map_option (toISOString env) (createdAt d),
               updatedAt = map_option (toISOString env) (updatedAt d) \<rparr>)
           \<in> set (listed (get_meetings env st uid))"
    unfolding listed_get_meetings(2) by (force simp: shape_fields)
  show "\<forall>(k, j) \<in> set (listed (get_meetings_participating env st uid)).
         uid \<in> set (or_nil (participants j))
         \<and> (\<exists>d. (k, d) \<in> set st
              \<and> j = \<lparr> title = title d, date = date d, location = location d,
                      notes_txt = notes_txt d, participants = participants d,
                      createdBy = createdBy d,
                      createdAt = map_option (toISOString env) (createdAt d),
                      updatedAt = map_option (toISOString env) (updatedAt d) \<rparr>)"
    unfolding listed_get_meetings_participating(2) by (auto simp: shape_fields)
  show "\<forall>(k, d) \<in> set st. uid \<in> set (or_nil (participants d)) \<longrightarrow>
         (k, \<lparr> title = title d, date = date d, location = location d,
               notes_txt = notes_txt d, participants = participants d,
               createdBy = createdBy d,
               createdAt = map_option (toISOString env) (createdAt d),
               updatedAt = map_option (toISOString env) (updatedAt d) \<rparr>)
           \<in> set (listed (get_meetings_participating env st uid))"
    unfolding listed_get_meetings_participating(2) by (force simp: shape_fields)
  show "\<forall>(k, d) \<in> set st. createdBy d = uid \<and> uid \<in> set (or_nil (participants d)) \<longrightarrow>
           (k, \<lparr> title = title d, date = date d, location = location d,
                 notes_txt = notes_txt d, participants = participants d,
                 createdBy = createdBy d,
                 createdAt = map_option (toISOString env) (createdAt d),
                 updatedAt = map_option (toISOString env) (updatedAt d) \<rparr>)
             \<in> set (listed (get_meetings env st uid))
               \<inter> set (listed (get_meetings_participating env st uid))"
    unfolding listed_get_meetings(2) listed_get_meetings_participating(2)
    by (force simp: shape_fields)
qed

theorem list_queries_exact_witness:
  "((''m2'', team_meeting) \<in> set sample_store \<and> createdBy team_meeting = ''alice''
      \<and> ''alice'' \<in> set (or_nil (participants team_meeting)))
   \<and> (''m2'', \<lparr> title = ''Planning'', date = Some ''2024-01-01T00:00:00.000Z'',
                  location = [], notes_txt = [],
                  participants = Some [''alice'', ''carol''], createdBy = ''alice'',
                  createdAt = Some ''1970-01-01T00:00:01.000Z'',
                  updatedAt = Some ''1970-01-01T00:00:02.000Z'' \<rparr>)
        \<in> set (listed (get_meetings sample_env sample_store ''alice''))
   \<and> (''m2'', \<lparr> title = ''Planning'', date = Some ''2024-01-01T00:00:00.000Z'',
                  location = [], notes_txt = [],
                  participants = Some [''alice'', ''carol''], createdBy = ''alice'',
                  createdAt = Some ''1970-01-01T00:00:01.000Z'',
                  updatedAt = Some ''1970-01-01T00:00:02.000Z'' \<rparr>)
        \<in> set (listed (get_meetings_participating sample_env sample_store ''alice''))
   \<and> length (listed (get_meetings sample_env sample_store ''alice'')) = 2
   \<and> length (listed (get_meetings_participating sample_env sample_store ''alice'')) = 2
   \<and> length (listed (get_meetings sample_env sample_store ''carol'')) = 1
   \<and> length (listed (get_meetings_participating sample_env sample_store ''carol'')) = 1"
proof -
  let ?j = "\<lparr> title = ''Planning'', date = Some ''2024-01-01T00:00:00.000Z'',
              location = [], notes_txt = [],
              participants = Some [''alice'', ''carol''], createdBy = ''alice'',
              createdAt = Some ''1970-01-01T00:00:01.000Z'',
              updatedAt = Some ''1970-01-01T00:00:02.000Z'' \<rparr>"
  have h: "(''m2'', team_meeting) \<in> set sample_store"
    "createdBy team_meeting = ''alice''"
    "''alice'' \<in> set (or_nil (participants team_meeting))"
    by (simp_all add: sample_store_def team_meeting_def or_nil_def)
  have j: "\<lparr> title = title team_meeting, date = date team_meeting,
             location = location team_meeting, notes_txt = notes_txt team_meeting,
             participants = participants team_meeting, createdBy = createdBy team_meeting,
             createdAt = map_option (toISOString sample_env) (createdAt team_meeting),
             updatedAt = map_option (toISOString sample_env) (updatedAt team_meeting) \<rparr> = ?j"
    by (simp add: team_meeting_def sample_env_def sample_iso_def)
  note a = list_queries_exact [of sample_env sample_store "''alice''"]
  note c = list_queries_exact [of sample_env sample_store "''carol''"]
  from a h have "(''m2'', \<lparr> title = title team_meeting, date = date team_meeting,
             location = location team_meeting, notes_txt = notes_txt team_meeting,
             participants = participants team_meeting, createdBy = createdBy team_meeting,
             createdAt = map_option (toISOString sample_env) (createdAt team_meeting),
             updatedAt = map_option (toISOString sample_env) (updatedAt team_meeting) \<rparr>)
        \<in> set (listed (get_meetings sample_env sample_store ''alice''))
          \<inter> set (listed (get_meetings_participating sample_env sample_store ''alice''))"
    by blast
  then have m: "(''m2'', ?j) \<in> set (listed (get_meetings sample_env sample_store ''alice''))"
    "(''m2'', ?j) \<in> set (listed (get_meetings_participating sample_env sample_store ''alice''))"
    unfolding j by simp_all
  from a have l1: "length (listed (get_meetings sample_env sample_store ''alice'')) = 2"
    by (simp add: sample_store_def sample_meeting_def team_meeting_def review_meeting_def)
  from a have l2: "length (listed (get_meetings_participating sample_env sample_store ''alice'')) = 2"
    by (simp add: sample_store_def sample_meeting_def team_meeting_def review_meeting_def
        or_nil_def)
  from c have l3: "length (listed (get_meetings sample_env sample_store ''carol'')) = 1"
    by (simp add: sample_store_def sample_meeting_def team_meeting_def review_meeting_def)
  from c have l4: "length (listed (get_meetings_participating sample_env sample_store ''carol'')) = 1"
    by (simp add: sample_store_def sample_meeting_def team_meeting_def review_meeting_def
        or_nil_def)
  from h m l1 l2 l3 l4 show ?thesis by blast
qed

end
